theory Spec2Isabelle
  imports Main "HOL-Library.Sublist" "HOL-Library.Multiset"
begin

section \<open>The scheduler package: registry and instantiation\<close>

text \<open>
  The Go package \<^verbatim>\<open>scheduler\<close> declares four types and one variable:
  \<^item> \<^verbatim>\<open>State\<close>, \<^verbatim>\<open>Planner\<close> and \<^verbatim>\<open>Scheduler\<close> are interfaces. \<^verbatim>\<open>NewScheduler\<close> only
    passes values of the first two on to the factory, so they are type parameters
    \<open>'st\<close> and \<open>'pl\<close>. A value of interface type \<^verbatim>\<open>Scheduler\<close> is either \<^verbatim>\<open>nil\<close> or an
    instance: \<open>'sc option\<close>, with \<open>None\<close> for \<^verbatim>\<open>nil\<close>.
  \<^item> \<^verbatim>\<open>type Factory func(State, Planner) Scheduler\<close> is a function type. A Go function
    value may be \<^verbatim>\<open>nil\<close>, and calling it panics, so a \<open>Factory\<close> is an optional function.
  \<^item> \<^verbatim>\<open>var BuiltinSchedulers = map[string]Factory{}\<close> is the only package-level variable:
    a field of the record of the package's state. The record is extensible, its
    \<open>more\<close> part stands for every other piece of state of the program.
  \<^item> a Go \<^verbatim>\<open>error\<close> is \<^verbatim>\<open>nil\<close> or carries a message: \<open>error option\<close>, the error being the
    message \<^verbatim>\<open>fmt.Errorf\<close> formats.
\<close>

type_synonym error = string

type_synonym ('st, 'pl, 'sc) Factory = "('st \<Rightarrow> 'pl \<Rightarrow> 'sc option) option"

record ('st, 'pl, 'sc) package_state =
  BuiltinSchedulers :: "string \<rightharpoonup> ('st, 'pl, 'sc) Factory"

text \<open>The initial value of the variable: the empty map literal.\<close>

definition init_package :: "('st, 'pl, 'sc) package_state" where
  "init_package = \<lparr>BuiltinSchedulers = Map.empty\<rparr>"

text \<open>A call either returns its results or panics (the call of a \<^verbatim>\<open>nil\<close> function).\<close>

datatype 'a outcome = Panic | Return 'a

text \<open>
  \<^verbatim>\<open>fmt.Errorf("unknown scheduler '%s'", name)\<close>: the verb \<^verbatim>\<open>%s\<close> writes the bytes of a
  string operand as they are, between the two quote characters of the format.
\<close>

definition unknown_scheduler :: "string \<Rightarrow> error" where
  "unknown_scheduler name = ''unknown scheduler '' @ [CHR 0x27] @ name @ [CHR 0x27]"

text \<open>
  \<^verbatim>\<open>
  func NewScheduler(name string, state State, planner Planner) (Scheduler, error) {
      factory, ok := BuiltinSchedulers[name]
      if !ok {
          return nil, fmt.Errorf("unknown scheduler '%s'", name)
      }
      sched := factory(state, planner)
      return sched, nil
  }
  \<close>
  The function takes the package's state and returns it with the outcome. A factory is
  taken here as the function that gives its result; what its call may write is the
  subject of the next subsection.
\<close>

definition NewScheduler ::
  "('st, 'pl, 'sc, 'z) package_state_scheme \<Rightarrow> string \<Rightarrow> 'st \<Rightarrow> 'pl \<Rightarrow>
     ('sc option \<times> error option) outcome \<times> ('st, 'pl, 'sc, 'z) package_state_scheme" where
  "NewScheduler g name state planner =
     (case BuiltinSchedulers g name of
        None \<Rightarrow> (Return (None, Some (unknown_scheduler name)), g)
      | Some factory \<Rightarrow>
          (case factory of
             None \<Rightarrow> (Panic, g)
           | Some f \<Rightarrow> (Return (f state planner, None), g)))"

subsection \<open>Factories that write to the state of the program\<close>

text \<open>
  A Go function is not only its result: the call \<^verbatim>\<open>factory(state, planner)\<close> runs code that
  can write the exported variable \<^verbatim>\<open>BuiltinSchedulers\<close> and any other state of the
  program, and it can panic. The model above takes a factory as the function that gives
  its result, which is what the values \<^verbatim>\<open>NewScheduler\<close> returns depend on. To say what a
  call of \<^verbatim>\<open>NewScheduler\<close> does to the state, the model below keeps function values
  \<open>'f\<close> in the registry (\<open>None\<close> for \<^verbatim>\<open>nil\<close>) and takes as a parameter what the call of a
  function value does: from the state and the planner it is given and the state of the
  program, it panics or returns a Scheduler, and leaves a state of the program.
\<close>

record 'f program_state =
  BuiltinSchedulers_var :: "string \<rightharpoonup> 'f option"

text \<open>
  \<^verbatim>\<open>NewScheduler\<close> on the state of the program: the lookup reads the variable; the state
  after a call that reaches \<^verbatim>\<open>factory(state, planner)\<close> is the state that call leaves, and
  a panic of the factory is a panic of \<^verbatim>\<open>NewScheduler\<close>.
\<close>

definition NewScheduler_exec ::
  "('f \<Rightarrow> 'st \<Rightarrow> 'pl \<Rightarrow> ('f, 'z) program_state_scheme \<Rightarrow>
      'sc option outcome \<times> ('f, 'z) program_state_scheme) \<Rightarrow>
   ('f, 'z) program_state_scheme \<Rightarrow> string \<Rightarrow> 'st \<Rightarrow> 'pl \<Rightarrow>
     ('sc option \<times> error option) outcome \<times> ('f, 'z) program_state_scheme" where
  "NewScheduler_exec call w name state planner =
     (case BuiltinSchedulers_var w name of
        None \<Rightarrow> (Return (None, Some (unknown_scheduler name)), w)
      | Some factory \<Rightarrow>
          (case factory of
             None \<Rightarrow> (Panic, w)
           | Some f \<Rightarrow>
               (case call f state planner w of
                  (Panic, w') \<Rightarrow> (Panic, w')
                | (Return sched, w') \<Rightarrow> (Return (sched, None), w'))))"

text \<open>
  The call of a factory that only computes its result: it returns and leaves the state
  as it is.
\<close>

definition pure_call ::
  "('st \<Rightarrow> 'pl \<Rightarrow> 'sc option) \<Rightarrow> 'st \<Rightarrow> 'pl \<Rightarrow> 'w \<Rightarrow> 'sc option outcome \<times> 'w" where
  "pure_call f state planner w = (Return (f state planner), w)"




section \<open>The parts of the protocol the package only declares\<close>

text \<open>
  The package has no function that adds an entry to \<^verbatim>\<open>BuiltinSchedulers\<close>, and it declares
  \<^verbatim>\<open>ResultIterator\<close>, \<^verbatim>\<open>State\<close>, \<^verbatim>\<open>Planner\<close> and \<^verbatim>\<open>Scheduler\<close> as interfaces with no
  implementation; \<^verbatim>\<open>structs.Plan\<close>, \<^verbatim>\<open>structs.PlanResult\<close> and \<^verbatim>\<open>structs.Node\<close> belong to
  another package. The definitions of this section follow the specification of these
  parts instead.
\<close>

subsection \<open>Registration\<close>

text \<open>
  Modelled from the spec: the result of \<open>Register\<close>, which the source does not have.
  Section 4.1 says that a registration either takes place or fails because the name is
  already registered; it gives the failure no message.
\<close>

datatype registration = Registered | AlreadyRegistered

text \<open>
  Modelled from the spec: \<open>Register(name, factory)\<close> of section 4.1, missing from the
  source, where the only way to add an entry is an assignment to the exported map.
  "\<open>Register(name, factory)\<close> fails if \<open>name\<close> is already registered"; "No side effects
  beyond registry mutation at registration time".
\<close>

definition Register ::
  "('st, 'pl, 'sc, 'z) package_state_scheme \<Rightarrow> string \<Rightarrow> ('st, 'pl, 'sc) Factory \<Rightarrow>
     registration \<times> ('st, 'pl, 'sc, 'z) package_state_scheme" where
  "Register g name factory =
     (case BuiltinSchedulers g name of
        Some registered \<Rightarrow> (AlreadyRegistered, g)
      | None \<Rightarrow> (Registered, g\<lparr>BuiltinSchedulers := (BuiltinSchedulers g)(name \<mapsto> factory)\<rparr>))"

subsection \<open>Result cursor\<close>

text \<open>
  Modelled from the spec: an implementation of the interface \<^verbatim>\<open>ResultIterator\<close>, of which
  the source has only the declaration \<^verbatim>\<open>Next() interface{}\<close>. Sections 4.3 and 9 describe
  a pull-based, forward-only cursor over a finite sequence of results: its state is the
  list of results it has not handed out yet.
\<close>

type_synonym 'a ResultIterator = "'a list"

text \<open>
  Modelled from the spec: the method \<^verbatim>\<open>Next\<close> of that cursor. "\<open>Next()\<close> returns the next
  element or a sentinel exhausted value": \<open>Some x\<close> for an element and \<open>None\<close> for the
  sentinel, together with the cursor after the call.
\<close>

definition Next :: "'a ResultIterator \<Rightarrow> 'a option \<times> 'a ResultIterator" where
  "Next it = (case it of [] \<Rightarrow> (None, []) | x # xs \<Rightarrow> (Some x, xs))"

text \<open>
  Modelled from the spec: \<open>n\<close> calls of \<^verbatim>\<open>Next\<close> in a row on one cursor, with the values
  they return in order and the cursor they leave.
\<close>

fun Next_times :: "nat \<Rightarrow> 'a ResultIterator \<Rightarrow> 'a option list \<times> 'a ResultIterator" where
  "Next_times 0 it = ([], it)"
| "Next_times (Suc n) it =
     (case Next it of (r, it') \<Rightarrow>
        (case Next_times n it' of (rs, it'') \<Rightarrow> (r # rs, it'')))"

subsection \<open>Cluster state, plans and arbitration\<close>

text \<open>
  Modelled from the spec: the data model of section 3, for \<^verbatim>\<open>structs.Node\<close>,
  \<^verbatim>\<open>structs.Plan\<close>, \<^verbatim>\<open>structs.PlanResult\<close> and the allocations, none of which is in the
  source. A Node has a capacity ("CPU, memory, and similar quantities") and a status
  (ready, draining, down); an Allocation binds a workload to a Node with a reservation
  and a desired status (run, stop); the cluster state is versioned; a Plan is a list of
  proposed Allocations (a proposal under the identifier of a committed Allocation
  updates it, one with desired status stop ends it), tagged with its Evaluation and the
  version of the snapshot it was computed against; a Plan Result lists the accepted
  Allocations and the rejected ones with a reason each, and the version it is valid as
  of. Nodes are kept under their identifiers in an association list.
\<close>

datatype node_status = Ready | Draining | Down

text \<open>Modelled from the spec: the desired status of an Allocation (section 3).\<close>

datatype desired_status = Run | Stop

text \<open>Modelled from the spec: resource quantities (section 3), two of them named.\<close>

record resources =
  cpu :: nat
  memory :: nat

text \<open>Modelled from the spec: a Node (section 3), without its placement attributes.\<close>

record node =
  capacity :: resources
  status :: node_status

text \<open>
  Modelled from the spec: an Allocation (section 3), without the status the client
  reports, which arbitration does not read.
\<close>

record allocation =
  alloc_id :: string
  node_ref :: string
  eval_ref :: string
  reserved :: resources
  desired :: desired_status

text \<open>
  Modelled from the spec: the committed cluster state and, as an immutable value, a
  State Snapshot of it (section 3).
\<close>

record cluster =
  nodes :: "(string \<times> node) list"
  allocs :: "allocation list"
  version :: nat

text \<open>Modelled from the spec: a Plan (section 3).\<close>

record plan =
  plan_eval :: string
  plan_version :: nat
  proposed :: "allocation list"

text \<open>
  Modelled from the spec: the reasons of a rejection (section 4.5, step 2). The spec
  names \<open>stale-snapshot-conflict\<close> and gives no condition for it.
\<close>

datatype reject_reason = CapacityExceeded | NodeUnavailable | StaleSnapshotConflict

text \<open>Modelled from the spec: a Plan Result (section 3).\<close>

record plan_result =
  accepted :: "allocation list"
  rejected :: "(allocation \<times> reject_reason) list"
  as_of :: nat

text \<open>
  Modelled from the spec: the error of \<open>SubmitPlan\<close> (section 4.5, failure modes): the
  durable commit failed, which is not a rejection.
\<close>

datatype submit_error = CommitFailed

text \<open>
  Modelled from the spec: "exceeds capacity" for resource quantities, componentwise.
\<close>

definition fits :: "resources \<Rightarrow> resources \<Rightarrow> bool" where
  "fits r c = (cpu r \<le> cpu c \<and> memory r \<le> memory c)"

text \<open>
  Modelled from the spec: the Allocations "with an active desired status" on a Node
  (section 3).
\<close>

definition active_on :: "string \<Rightarrow> allocation list \<Rightarrow> allocation list" where
  "active_on n as = filter (\<lambda>a. node_ref a = n \<and> desired a = Run) as"

text \<open>
  Modelled from the spec: a Node's reservation total, "the sum of reserved resources
  of all Allocations with an active desired status" on it (section 3).
\<close>

definition reserved_total :: "string \<Rightarrow> allocation list \<Rightarrow> resources" where
  "reserved_total n as =
     \<lparr>cpu = sum_list (map (\<lambda>a. cpu (reserved a)) (active_on n as)),
      memory = sum_list (map (\<lambda>a. memory (reserved a)) (active_on n as))\<rparr>"

text \<open>
  Modelled from the spec: the Allocations with one proposal applied (a creation, or an
  update of the Allocation with the same identifier, which it replaces).
\<close>

definition put_alloc :: "allocation \<Rightarrow> allocation list \<Rightarrow> allocation list" where
  "put_alloc a as = a # filter (\<lambda>b. alloc_id b \<noteq> alloc_id a) as"

text \<open>
  Modelled from the spec: the validation of one proposed Allocation (section 4.5,
  step 2): "recompute the target Node's committed reservation total including this
  proposal; if it would exceed capacity, or if the target Node's status is no longer
  eligible, reject that individual Allocation with a specific reason". A Node that is
  unknown or not ready is unavailable "regardless of capacity" (scenario D).
\<close>

definition check_proposal ::
  "(string \<times> node) list \<Rightarrow> allocation list \<Rightarrow> allocation \<Rightarrow> reject_reason option" where
  "check_proposal ns as a =
     (case map_of ns (node_ref a) of
        None \<Rightarrow> Some NodeUnavailable
      | Some nd \<Rightarrow>
          if status nd \<noteq> Ready then Some NodeUnavailable
          else if \<not> fits (reserved_total (node_ref a) (put_alloc a as)) (capacity nd)
          then Some CapacityExceeded
          else None)"

text \<open>
  Modelled from the spec: the pass over a Plan (section 4.5, steps 2 and 3), on the
  current Allocations. The proposals are validated in order; one that is accepted counts
  in the totals the later proposals of the same Plan are validated against. The result
  is the Allocations to commit, the accepted proposals and the rejected ones.
\<close>

fun arbitrate ::
  "(string \<times> node) list \<Rightarrow> allocation list \<Rightarrow> allocation list \<Rightarrow>
     allocation list \<times> allocation list \<times> (allocation \<times> reject_reason) list" where
  "arbitrate ns as [] = (as, [], [])"
| "arbitrate ns as (a # ps) =
     (case check_proposal ns as a of
        Some r \<Rightarrow>
          (case arbitrate ns as ps of (as', acc, rej) \<Rightarrow> (as', acc, (a, r) # rej))
      | None \<Rightarrow>
          (case arbitrate ns (put_alloc a as) ps of (as', acc, rej) \<Rightarrow> (as', a # acc, rej)))"

text \<open>
  Modelled from the spec: an implementation of \<^verbatim>\<open>Planner.SubmitPlan\<close>, of which the source
  has only the declaration, after the algorithm of section 4.5. The arbiter's
  authoritative state is passed in and returned (step 1 reads it, not the Plan's
  snapshot). \<open>durable\<close> is the answer of the storage engine to the commit of step 3: when
  it fails nothing is committed and the call returns an error; otherwise the accepted
  Allocations are committed together and the call returns the Plan Result and a
  snapshot of the state just committed (step 4). The version advances when the commit
  changes the state.
\<close>

definition SubmitPlan ::
  "bool \<Rightarrow> cluster \<Rightarrow> plan \<Rightarrow> (submit_error + plan_result \<times> cluster) \<times> cluster" where
  "SubmitPlan durable c p =
     (case arbitrate (nodes c) (allocs c) (proposed p) of
        (as', acc, rej) \<Rightarrow>
          if \<not> durable then (Inl CommitFailed, c)
          else
            let c' = c\<lparr>allocs := as',
                      version := (if acc = [] then version c else Suc (version c))\<rparr>
            in (Inr (\<lparr>accepted = acc, rejected = rej, as_of = version c'\<rparr>, c'), c'))"

text \<open>
  Modelled from the spec: a sequence of Plans submitted to the one arbiter, in the order
  they arrive (section 4.5: arbitration is serialized), each with the answer of the
  storage engine to its commit.
\<close>

fun submit_all :: "cluster \<Rightarrow> (bool \<times> plan) list \<Rightarrow> cluster" where
  "submit_all c [] = c"
| "submit_all c ((durable, p) # ps) = submit_all (snd (SubmitPlan durable c p)) ps"

text \<open>
  Modelled from the spec: the capacity invariant of sections 3 and 8, "for every Node,
  the sum of reserved resources of all Allocations with an active desired status never
  exceeds that Node's capacity".
\<close>

definition within_capacity :: "(string \<times> node) list \<Rightarrow> allocation list \<Rightarrow> bool" where
  "within_capacity ns as =
     (\<forall>n \<in> set (map fst ns).
        case map_of ns n of
          None \<Rightarrow> True
        | Some nd \<Rightarrow> fits (reserved_total n as) (capacity nd))"

text \<open>Modelled from the spec: the capacity invariant, of a cluster state.\<close>

definition capacity_ok :: "cluster \<Rightarrow> bool" where
  "capacity_ok c = within_capacity (nodes c) (allocs c)"

text \<open>
  Modelled from the spec: the cluster of the scenarios of section 8, one ready Node of
  capacity 10 and no Allocation yet.
\<close>

definition scenario_cluster :: cluster where
  "scenario_cluster =
     \<lparr>nodes = [(''n1'', \<lparr>capacity = \<lparr>cpu = 10, memory = 10\<rparr>, status = Ready\<rparr>)],
      allocs = [], version = 0\<rparr>"

text \<open>
  Modelled from the spec: a Plan of one Evaluation that proposes one running Allocation
  of the given size on Node \<open>n1\<close>, as the Plans of scenarios A, B and C do.
\<close>

definition scenario_plan :: "string \<Rightarrow> nat \<Rightarrow> nat \<Rightarrow> plan" where
  "scenario_plan e v amount =
     \<lparr>plan_eval = e, plan_version = v,
      proposed = [\<lparr>alloc_id = e, node_ref = ''n1'', eval_ref = e,
                   reserved = \<lparr>cpu = amount, memory = amount\<rparr>, desired = Run\<rparr>]\<rparr>"

text \<open>
  Modelled from the spec: the submissions of scenarios A, B and C in the order they
  reach the arbiter: size 6, size 5, and two of size 4 computed against the same
  snapshot.
\<close>

definition scenario_submissions :: "(bool \<times> plan) list" where
  "scenario_submissions =
     [(True, scenario_plan ''e1'' 0 6), (True, scenario_plan ''e2'' 0 5),
      (True, scenario_plan ''e3'' 1 4), (True, scenario_plan ''e4'' 1 4)]"

text \<open>
  Modelled from the spec: a Plan with two proposals for Node \<open>n1\<close>, of sizes 6 and 5, of
  which only the first fits.
\<close>

definition scenario_two_proposals :: plan where
  "scenario_two_proposals =
     \<lparr>plan_eval = ''e1'', plan_version = 0,
      proposed =
        [\<lparr>alloc_id = ''a1'', node_ref = ''n1'', eval_ref = ''e1'',
          reserved = \<lparr>cpu = 6, memory = 6\<rparr>, desired = Run\<rparr>,
         \<lparr>alloc_id = ''a2'', node_ref = ''n1'', eval_ref = ''e1'',
          reserved = \<lparr>cpu = 5, memory = 5\<rparr>, desired = Run\<rparr>]\<rparr>"

section \<open>Properties of instantiation\<close>

lemma unknown_scheduler_prefix: "prefix ''unknown scheduler'' (unknown_scheduler name)"
  by (simp add: unknown_scheduler_def)

lemma unknown_scheduler_sublist: "sublist name (unknown_scheduler name)"
proof -
  have "unknown_scheduler name = (''unknown scheduler '' @ [CHR 0x27]) @ name @ [CHR 0x27]"
    by (simp add: unknown_scheduler_def)
  then show ?thesis
    unfolding sublist_def by blast
qed

text \<open>A \<^verbatim>\<open>nil\<close> function stored under a name is found by the lookup and its call panics.\<close>

lemma NewScheduler_nil_factory:
  "BuiltinSchedulers g name = Some None \<Longrightarrow> fst (NewScheduler g name state planner) = Panic"
  by (simp add: NewScheduler_def)

text \<open>
  Claim C2. For a name with no entry in the registry, \<^verbatim>\<open>NewScheduler\<close> returns the \<^verbatim>\<open>nil\<close>
  Scheduler together with an error whose message starts with "unknown scheduler",
  whatever the state and the planner are.
\<close>

theorem NewScheduler_unregistered:
  assumes "BuiltinSchedulers g name = None"
  shows "\<exists>msg. fst (NewScheduler g name state planner) = Return (None, Some msg)
           \<and> prefix ''unknown scheduler'' msg"
  using assms by (simp add: NewScheduler_def unknown_scheduler_prefix)

theorem NewScheduler_unregistered_witness:
  "BuiltinSchedulers (init_package :: (nat, nat, nat) package_state) ''service'' = None
   \<and> (\<exists>msg. fst (NewScheduler (init_package :: (nat, nat, nat) package_state) ''service'' 0 0)
                = Return (None, Some msg)
         \<and> prefix ''unknown scheduler'' msg)"
proof -
  have h: "BuiltinSchedulers (init_package :: (nat, nat, nat) package_state) ''service'' = None"
    by (simp add: init_package_def)
  show ?thesis
    using h NewScheduler_unregistered [OF h, of 0 0] by simp
qed

text \<open>
  Claim C3. For a name under which a factory \<open>f\<close> is registered, \<^verbatim>\<open>NewScheduler\<close> returns
  what \<open>f\<close> returns on the given state and planner, with a \<^verbatim>\<open>nil\<close> error.
\<close>

theorem NewScheduler_registered:
  assumes "BuiltinSchedulers g name = Some (Some f)"
  shows "fst (NewScheduler g name state planner) = Return (f state planner, None)"
  using assms by (simp add: NewScheduler_def)

theorem NewScheduler_registered_witness:
  "BuiltinSchedulers
     \<lparr>BuiltinSchedulers = [''service'' \<mapsto> Some (\<lambda>s p. Some (s + p))]\<rparr> ''service''
     = Some (Some (\<lambda>s p. Some (s + p)))
   \<and> fst (NewScheduler
       \<lparr>BuiltinSchedulers = [''service'' \<mapsto> Some (\<lambda>s p. Some (s + p))]\<rparr> ''service''
       (3::nat) (4::nat)) = Return (Some 7, None)"
proof -
  let ?g = "\<lparr>BuiltinSchedulers = [''service'' \<mapsto> Some (\<lambda>s p. Some (s + p :: nat))]\<rparr>"
  have h: "BuiltinSchedulers ?g ''service'' = Some (Some (\<lambda>s p. Some (s + p)))"
    by simp
  show ?thesis
    using h NewScheduler_registered [OF h, of 3 4] by simp
qed

text \<open>
  With factories that only compute their result, the two models of \<^verbatim>\<open>NewScheduler\<close>
  return the same values.
\<close>

lemma NewScheduler_exec_pure:
  assumes "BuiltinSchedulers_var w = BuiltinSchedulers g"
  shows "fst (NewScheduler_exec pure_call w name state planner)
         = fst (NewScheduler g name state planner)"
  using assms
  by (simp add: NewScheduler_exec_def NewScheduler_def pure_call_def split: option.split)





text \<open>
  Claim C9. In the initial state of the package the registry is the empty map, and for
  every name, state and planner \<^verbatim>\<open>NewScheduler\<close> returns the \<^verbatim>\<open>nil\<close> Scheduler and the
  error whose message is \<^verbatim>\<open>unknown scheduler '\<close>, the name, and a closing quote.
\<close>

theorem NewScheduler_initially_unknown:
  "BuiltinSchedulers init_package = Map.empty
   \<and> fst (NewScheduler init_package name state planner)
       = Return (None, Some (''unknown scheduler '' @ [CHR 0x27] @ name @ [CHR 0x27]))"
  by (simp add: NewScheduler_def init_package_def unknown_scheduler_def)

text \<open>
  Claim C10. When \<^verbatim>\<open>NewScheduler\<close> returns an error that is not \<^verbatim>\<open>nil\<close>, the Scheduler it
  returns is \<^verbatim>\<open>nil\<close> and the message is the text \<^verbatim>\<open>unknown scheduler '\<close>, the requested
  name, and a closing quote; so the name occurs in the message as it was given.
\<close>

theorem NewScheduler_error_shape:
  assumes "fst (NewScheduler g name state planner) = Return (sched, Some e)"
  shows "sched = None
         \<and> e = ''unknown scheduler '' @ [CHR 0x27] @ name @ [CHR 0x27]
         \<and> sublist name e"
proof -
  from assms have "sched = None \<and> e = unknown_scheduler name"
    by (auto simp: NewScheduler_def split: option.splits)
  then show ?thesis
    using unknown_scheduler_sublist [of name] by (simp add: unknown_scheduler_def)
qed

theorem NewScheduler_error_shape_witness:
  "fst (NewScheduler (init_package :: (nat, nat, nat) package_state) ''batch'' 0 0)
     = Return (None, Some (''unknown scheduler '' @ [CHR 0x27] @ ''batch'' @ [CHR 0x27]))
   \<and> (None :: nat option) = None
   \<and> sublist ''batch'' (''unknown scheduler '' @ [CHR 0x27] @ ''batch'' @ [CHR 0x27])"
proof -
  have h: "fst (NewScheduler (init_package :: (nat, nat, nat) package_state) ''batch'' 0 0)
     = Return (None, Some (''unknown scheduler '' @ [CHR 0x27] @ ''batch'' @ [CHR 0x27]))"
    by (simp add: NewScheduler_def init_package_def unknown_scheduler_def)
  show ?thesis
    using h NewScheduler_error_shape [OF h] by simp
qed

section \<open>Properties of arbitration\<close>

lemma within_capacity_iff:
  "within_capacity ns as \<longleftrightarrow>
     (\<forall>n nd. map_of ns n = Some nd \<longrightarrow> fits (reserved_total n as) (capacity nd))"
proof
  assume h: "within_capacity ns as"
  show "\<forall>n nd. map_of ns n = Some nd \<longrightarrow> fits (reserved_total n as) (capacity nd)"
  proof (intro allI impI)
    fix n nd assume m: "map_of ns n = Some nd"
    then have "n \<in> set (map fst ns)"
      by (metis domI dom_map_of_conv_image_fst set_map)
    with h m show "fits (reserved_total n as) (capacity nd)"
      unfolding within_capacity_def by force
  qed
next
  assume "\<forall>n nd. map_of ns n = Some nd \<longrightarrow> fits (reserved_total n as) (capacity nd)"
  then show "within_capacity ns as"
    unfolding within_capacity_def by (auto split: option.split)
qed

lemma sum_list_filter_le:
  fixes f :: "'a \<Rightarrow> nat"
  shows "sum_list (map f (filter P (filter Q xs))) \<le> sum_list (map f (filter P xs))"
  by (induction xs) auto

lemma reserved_total_drop_fits:
  assumes "fits (reserved_total n as) cap"
  shows "fits (reserved_total n (filter Q as)) cap"
proof -
  have "active_on n (filter Q as) = filter Q (active_on n as)"
    unfolding active_on_def by (induction as) auto
  moreover have "sum_list (map f (filter Q xs)) \<le> sum_list (map f xs)" for f :: "allocation \<Rightarrow> nat" and xs
    by (induction xs) auto
  ultimately show ?thesis
    using assms unfolding fits_def reserved_total_def
    by (simp) (meson le_trans)
qed

lemma reserved_total_put_other:
  assumes "n \<noteq> node_ref a"
  shows "reserved_total n (put_alloc a as)
         = reserved_total n (filter (\<lambda>b. alloc_id b \<noteq> alloc_id a) as)"
  using assms by (simp add: reserved_total_def put_alloc_def active_on_def)

lemma check_proposal_keeps:
  assumes "check_proposal ns as a = None" and "within_capacity ns as"
  shows "within_capacity ns (put_alloc a as)"
  unfolding within_capacity_iff
proof (intro allI impI)
  fix n nd assume m: "map_of ns n = Some nd"
  show "fits (reserved_total n (put_alloc a as)) (capacity nd)"
  proof (cases "n = node_ref a")
    case True
    with assms(1) m show ?thesis
      by (auto simp: check_proposal_def split: if_splits)
  next
    case False
    from assms(2) m have "fits (reserved_total n as) (capacity nd)"
      unfolding within_capacity_iff by blast
    then show ?thesis
      using False by (simp add: reserved_total_put_other reserved_total_drop_fits)
  qed
qed

lemma arbitrate_keeps:
  "within_capacity ns as \<Longrightarrow> within_capacity ns (fst (arbitrate ns as ps))"
proof (induction ps arbitrary: as)
  case Nil
  then show ?case by simp
next
  case (Cons a ps)
  show ?case
  proof (cases "check_proposal ns as a")
    case None
    then have "within_capacity ns (put_alloc a as)"
      using Cons.prems by (rule check_proposal_keeps)
    then have "within_capacity ns (fst (arbitrate ns (put_alloc a as) ps))"
      by (rule Cons.IH)
    with None show ?thesis by (auto split: prod.split)
  next
    case (Some r)
    have "within_capacity ns (fst (arbitrate ns as ps))"
      using Cons.prems by (rule Cons.IH)
    with Some show ?thesis by (auto split: prod.split)
  qed
qed

lemma SubmitPlan_nodes: "nodes (snd (SubmitPlan d c p)) = nodes c"
  by (simp add: SubmitPlan_def Let_def split: prod.split)

lemma SubmitPlan_keeps:
  assumes "capacity_ok c"
  shows "capacity_ok (snd (SubmitPlan d c p))"
proof -
  have "within_capacity (nodes c) (fst (arbitrate (nodes c) (allocs c) (proposed p)))"
    using assms unfolding capacity_ok_def by (rule arbitrate_keeps)
  then show ?thesis
    using assms by (auto simp: SubmitPlan_def capacity_ok_def Let_def split: prod.split)
qed

lemma submit_all_keeps:
  "capacity_ok c \<Longrightarrow> capacity_ok (submit_all c subs)"
proof (induction subs arbitrary: c)
  case Nil
  then show ?case by simp
next
  case (Cons s subs)
  obtain d p where s: "s = (d, p)" by (cases s)
  show ?case
    using Cons.prems by (simp add: s Cons.IH SubmitPlan_keeps)
qed

lemma arbitrate_verdicts:
  "arbitrate ns as ps = (as', acc, rej) \<Longrightarrow> mset acc + mset (map fst rej) = mset ps"
proof (induction ps arbitrary: as as' acc rej)
  case Nil
  then show ?case by simp
next
  case (Cons a ps)
  then show ?case
    by (auto split: option.splits prod.splits)
qed

text \<open>A state with no Allocation is within capacity on every Node.\<close>

lemma no_allocations_within_capacity:
  "allocs c = [] \<Longrightarrow> capacity_ok c"
  by (simp add: capacity_ok_def within_capacity_def reserved_total_def active_on_def fits_def
      split: option.split)

text \<open>A durable commit always returns a Plan Result and a snapshot.\<close>

lemma SubmitPlan_durable_returns:
  "\<exists>res snap. fst (SubmitPlan True c p) = Inr (res, snap)"
  by (simp add: SubmitPlan_def Let_def split: prod.split)

text \<open>
  Claim C1. From a committed state within capacity on every Node (the state with no
  Allocation is one), after any number of the Plans of any sequence have gone through
  the arbiter, on every Node the total reserved by the Allocations with desired status
  run is within the Node's capacity.
\<close>

theorem capacity_invariant:
  assumes "capacity_ok c"
  shows "capacity_ok (submit_all c (take k subs))"
  using assms by (rule submit_all_keeps)

theorem capacity_invariant_witness:
  "capacity_ok scenario_cluster
   \<and> capacity_ok (submit_all scenario_cluster (take 4 scenario_submissions))
   \<and> reserved_total ''n1'' (allocs (submit_all scenario_cluster scenario_submissions))
       = \<lparr>cpu = 10, memory = 10\<rparr>"
proof -
  have h: "capacity_ok scenario_cluster"
    by code_simp
  have r: "reserved_total ''n1'' (allocs (submit_all scenario_cluster scenario_submissions))
             = \<lparr>cpu = 10, memory = 10\<rparr>"
    by code_simp
  from h capacity_invariant [OF h, of 4 scenario_submissions] r show ?thesis
    by (intro conjI)
qed

text \<open>
  Claim C7. When \<open>SubmitPlan\<close> succeeds it returns a Plan Result in which every proposed
  Allocation of the Plan has a verdict of its own, accepted or rejected with a reason
  (the accepted and the rejected Allocations together are the proposals, each once),
  and a snapshot that is the state just committed, at the version the result is valid
  as of.
\<close>

theorem SubmitPlan_result:
  assumes "fst (SubmitPlan durable c p) = Inr (res, snap)"
  shows "mset (accepted res) + mset (map fst (rejected res)) = mset (proposed p)
         \<and> snap = snd (SubmitPlan durable c p)
         \<and> as_of res = version snap"
proof -
  obtain as' acc rej where a: "arbitrate (nodes c) (allocs c) (proposed p) = (as', acc, rej)"
    by (cases "arbitrate (nodes c) (allocs c) (proposed p)")
  from a have "mset acc + mset (map fst rej) = mset (proposed p)"
    by (rule arbitrate_verdicts)
  with assms a show ?thesis
    by (auto simp: SubmitPlan_def Let_def split: if_splits)
qed

theorem SubmitPlan_result_witness:
  "fst (SubmitPlan True scenario_cluster scenario_two_proposals)
     = Inr (\<lparr>accepted = [proposed scenario_two_proposals ! 0],
             rejected = [(proposed scenario_two_proposals ! 1, CapacityExceeded)],
             as_of = 1\<rparr>,
            scenario_cluster\<lparr>allocs := [proposed scenario_two_proposals ! 0], version := 1\<rparr>)
   \<and> snd (SubmitPlan True scenario_cluster scenario_two_proposals)
       = scenario_cluster\<lparr>allocs := [proposed scenario_two_proposals ! 0], version := 1\<rparr>
   \<and> mset [proposed scenario_two_proposals ! 0] + mset [proposed scenario_two_proposals ! 1]
       = mset (proposed scenario_two_proposals)"
proof -
  have h: "fst (SubmitPlan True scenario_cluster scenario_two_proposals)
     = Inr (\<lparr>accepted = [proposed scenario_two_proposals ! 0],
             rejected = [(proposed scenario_two_proposals ! 1, CapacityExceeded)],
             as_of = 1\<rparr>,
            scenario_cluster\<lparr>allocs := [proposed scenario_two_proposals ! 0], version := 1\<rparr>)"
    by code_simp
  from h SubmitPlan_result [OF h] show ?thesis
    by simp
qed

section \<open>Properties of registration and of the result cursor\<close>

text \<open>
  Claim C4. In every state of the registry in which a name has an entry, a registration
  under that name fails: it is answered \<open>AlreadyRegistered\<close>, the state is the one before
  the call, and the name still has the entry it had.
\<close>

theorem Register_duplicate:
  assumes "BuiltinSchedulers g name = Some registered"
  shows "Register g name factory = (AlreadyRegistered, g)
         \<and> BuiltinSchedulers (snd (Register g name factory)) name = Some registered"
  using assms by (simp add: Register_def)

theorem Register_duplicate_witness:
  "BuiltinSchedulers
     (snd (Register (init_package :: (nat, nat, nat) package_state) ''service''
        (Some (\<lambda>s p. Some s)))) ''service''
     = Some (Some (\<lambda>s p. Some s))
   \<and> fst (Register
       (snd (Register (init_package :: (nat, nat, nat) package_state) ''service''
          (Some (\<lambda>s p. Some s)))) ''service'' (Some (\<lambda>s p. Some p)))
     = AlreadyRegistered"
proof -
  let ?g = "snd (Register (init_package :: (nat, nat, nat) package_state) ''service''
              (Some (\<lambda>s p. Some s)))"
  have h: "BuiltinSchedulers ?g ''service'' = Some (Some (\<lambda>s p. Some s))"
    by (simp add: Register_def init_package_def)
  from h Register_duplicate [OF h, of "Some (\<lambda>s p. Some p)"] show ?thesis
    by simp
qed

lemma Next_times_exhausted: "Next_times n [] = (replicate n None, [])"
  by (induction n) (simp_all add: Next_def)

text \<open>
  Claim C6. Once a call of \<^verbatim>\<open>Next\<close> has returned the sentinel, each of any number of
  further calls on the cursor returns the sentinel again and leaves the cursor as it
  is. The sentinel is a value \<^verbatim>\<open>Next\<close> returns, not an error: \<^verbatim>\<open>Next\<close> has no error result.
\<close>

theorem Next_exhausted_stays:
  assumes "fst (Next it) = None"
  shows "Next_times n (snd (Next it)) = (replicate n None, snd (Next it))"
proof -
  from assms have "it = []"
    by (cases it) (simp_all add: Next_def)
  then show ?thesis
    by (simp add: Next_def Next_times_exhausted)
qed

theorem Next_exhausted_stays_witness:
  "Next_times 3 [1::nat, 2] = ([Some 1, Some 2, None], [])
   \<and> fst (Next (snd (Next_times 2 [1::nat, 2]))) = None
   \<and> Next_times 3 (snd (Next (snd (Next_times 2 [1::nat, 2])))) = ([None, None, None], [])"
proof -
  have f: "Next_times 3 [1::nat, 2] = ([Some 1, Some 2, None], [])"
    by code_simp
  have h: "fst (Next (snd (Next_times 2 [1::nat, 2]))) = None"
    by code_simp
  have g: "snd (Next (snd (Next_times 2 [1::nat, 2]))) = []"
    by code_simp
  have rp: "replicate 3 (None :: nat option) = [None, None, None]"
    by code_simp
  have t: "Next_times 3 (snd (Next (snd (Next_times 2 [1::nat, 2]))))
             = ([None, None, None], [])"
    using Next_exhausted_stays [OF h, of 3] unfolding g rp .
  from f h t show ?thesis
    by (intro conjI)
qed

end
